theory Spec2Isabelle
  imports Complex_Main "HOL-Library.Word"
begin

section \<open>Exceptions\<close>

text \<open>
  The notebook \<^verbatim>\<open>03_multidim_analysis.ipynb\<close> defines three helper functions and one
  array expression. None of them catches an exception, so every failure of a call they
  make leaves the function at once. The exceptions that can arise are values here.
\<close>

datatype exn =
    FileNotFoundError string   \<comment> \<open>\<^verbatim>\<open>open(filename)\<close> on a path that does not exist\<close>
  | JSONDecodeError            \<comment> \<open>\<^verbatim>\<open>json.load\<close> on a text that is not a JSON document\<close>
  | KeyError string            \<comment> \<open>\<^verbatim>\<open>d[k]\<close> on a dict without the key \<^verbatim>\<open>k\<close>; a \<^verbatim>\<open>LookupError\<close>\<close>
  | TypeError                  \<comment> \<open>\<^verbatim>\<open>v[k]\<close> with a string key on a value that is not a dict,
                                   or arithmetic on a value that is not a number\<close>
  | RequestException           \<comment> \<open>\<^verbatim>\<open>requests.get\<close> did not obtain a response\<close>
  | OSError string             \<comment> \<open>\<^verbatim>\<open>open(out_filename, 'wb')\<close> could not create the file\<close>
  | ValueError                 \<comment> \<open>two arrays whose dimensions cannot be aligned\<close>
  | NotModelled                \<comment> \<open>an operation of the array library outside this model\<close>

text \<open>\<^verbatim>\<open>KeyError\<close> is the only exception above that Python derives from \<^verbatim>\<open>LookupError\<close>.\<close>

fun is_lookup_error :: "exn \<Rightarrow> bool" where
  "is_lookup_error (KeyError k) = True"
| "is_lookup_error e = False"

section \<open>The download helper\<close>

text \<open>
  \<^verbatim>\<open>
  def download_file(in_filename, out_filename):
      if not os.path.exists(out_filename):
          print("Downloading", in_filename)
          response = requests.get(in_filename)
          with open(out_filename, 'wb') as f:
              f.write(response.content)
  \<close>
  The state the function acts on is the local file system (a map from paths to the bytes
  stored there), the requests sent over the network (logged in order) and the lines
  printed. The outside is a parameter: what a GET of a URL gives, either an exception or a
  response with a status code and a body, and whether a path that does not exist can be
  created for writing.
\<close>

record response =
  status_code :: nat
  content :: string

record world =
  files :: "string \<rightharpoonup> string"
  requests :: "string list"
  stdout :: "string list"

record outside =
  http_get :: "string \<Rightarrow> exn + response"
  creatable :: "string \<Rightarrow> bool"

definition path_exists :: "world \<Rightarrow> string \<Rightarrow> bool" where
  "path_exists w p = (files w p \<noteq> None)"

definition print_line :: "string \<Rightarrow> world \<Rightarrow> world" where
  "print_line s w = w\<lparr>stdout := stdout w @ [s]\<rparr>"

definition send_request :: "string \<Rightarrow> world \<Rightarrow> world" where
  "send_request u w = w\<lparr>requests := requests w @ [u]\<rparr>"

definition write_bytes :: "string \<Rightarrow> string \<Rightarrow> world \<Rightarrow> world" where
  "write_bytes p b w = w\<lparr>files := (files w)(p \<mapsto> b)\<rparr>"

text \<open>
  The result pairs the outcome (\<open>Inr ()\<close> for a normal return, \<open>Inl e\<close> for the exception
  that left the function) with the state at that moment. The status code of the response
  is never read.
\<close>

definition download_file ::
  "outside \<Rightarrow> string \<Rightarrow> string \<Rightarrow> world \<Rightarrow> (exn + unit) \<times> world" where
  "download_file E in_filename out_filename w =
     (if \<not> path_exists w out_filename then
        (let w1 = print_line (''Downloading '' @ in_filename) w;
             w2 = send_request in_filename w1
         in case http_get E in_filename of
              Inl e \<Rightarrow> (Inl e, w2)
            | Inr response \<Rightarrow>
                if creatable E out_filename
                then (Inr (), write_bytes out_filename (content response) w2)
                else (Inl (OSError out_filename), w2))
      else (Inr (), w))"

text \<open>
  A sequence of calls with one destination, as successive statements of a cell: an
  exception ends the sequence.
\<close>

fun download_each ::
  "outside \<Rightarrow> string list \<Rightarrow> string \<Rightarrow> world \<Rightarrow> (exn + unit) \<times> world" where
  "download_each E [] out_filename w = (Inr (), w)"
| "download_each E (u # us) out_filename w =
     (case download_file E u out_filename w of
        (Inl e, w') \<Rightarrow> (Inl e, w')
      | (Inr _, w') \<Rightarrow> download_each E us out_filename w')"

section \<open>Metadata documents\<close>

text \<open>
  \<^verbatim>\<open>json.load\<close> gives a Python value: \<^verbatim>\<open>None\<close>, a bool, a number, a string, a list or a
  dict with string keys. A dict is given by its items; the keys of a dict are distinct,
  and a lookup takes the item with the key. The type \<open>'a\<close> stands for the numbers.
\<close>

datatype 'a json =
    JNull
  | JBool bool
  | JNum 'a
  | JStr string
  | JArr "'a json list"
  | JObj "(string \<times> 'a json) list"

text \<open>
  Subscription \<^verbatim>\<open>v[k]\<close> with a string key: a dict without the key raises
  \<^verbatim>\<open>KeyError\<close>; a list and a string accept integer indices only, and \<^verbatim>\<open>None\<close>, bools and
  numbers are not subscriptable at all: each of these raises \<^verbatim>\<open>TypeError\<close>.
\<close>

fun getitem :: "'a json \<Rightarrow> string \<Rightarrow> exn + 'a json" where
  "getitem (JObj items) k =
     (case map_of items k of None \<Rightarrow> Inl (KeyError k) | Some v \<Rightarrow> Inr v)"
| "getitem v k = Inl TypeError"

text \<open>\<^verbatim>\<open>'{}'.format(band_number)\<close> for an integer: its decimal digits, with a sign if negative.\<close>

fun str_nat :: "nat \<Rightarrow> string" where
  "str_nat n =
     (if n < 10 then [''0123456789'' ! n]
      else str_nat (n div 10) @ [''0123456789'' ! (n mod 10)])"

declare str_nat.simps [simp del]

definition str_int :: "int \<Rightarrow> string" where
  "str_int i = (if i < 0 then CHR ''-'' # str_nat (nat (- i)) else str_nat (nat i))"

definition mult_key :: "int \<Rightarrow> string" where
  "mult_key band_number = ''REFLECTANCE_MULT_BAND_'' @ str_int band_number"

definition add_key :: "int \<Rightarrow> string" where
  "add_key band_number = ''REFLECTANCE_ADD_BAND_'' @ str_int band_number"

section \<open>The scaling-factor loader\<close>

text \<open>
  \<^verbatim>\<open>
  def load_scale_factors(filename, band_number):
      with open(filename) as f:
          metadata = json.load(f)
      M_p = metadata['L1_METADATA_FILE'] \
                    ['RADIOMETRIC_RESCALING'] \
                    ['REFLECTANCE_MULT_BAND_{}'.format(band_number)]
      A_p = metadata['L1_METADATA_FILE'] \
                    ['RADIOMETRIC_RESCALING'] \
                    ['REFLECTANCE_ADD_BAND_{}'.format(band_number)]
      return M_p, A_p
  \<close>
  The three subscriptions of each chain are evaluated from left to right, the chain of the
  multiplier before the chain of the offset.
\<close>

definition subscript3 :: "'a json \<Rightarrow> string \<Rightarrow> string \<Rightarrow> string \<Rightarrow> exn + 'a json" where
  "subscript3 v k1 k2 k3 =
     (case getitem v k1 of
        Inl e \<Rightarrow> Inl e
      | Inr v1 \<Rightarrow>
          (case getitem v1 k2 of
             Inl e \<Rightarrow> Inl e
           | Inr v2 \<Rightarrow> getitem v2 k3))"

text \<open>The part of the function after the document is loaded.\<close>

definition scale_factors_of :: "'a json \<Rightarrow> int \<Rightarrow> exn + ('a json \<times> 'a json)" where
  "scale_factors_of metadata band_number =
     (case subscript3 metadata ''L1_METADATA_FILE'' ''RADIOMETRIC_RESCALING''
             (mult_key band_number) of
        Inl e \<Rightarrow> Inl e
      | Inr M_p \<Rightarrow>
          (case subscript3 metadata ''L1_METADATA_FILE'' ''RADIOMETRIC_RESCALING''
                  (add_key band_number) of
             Inl e \<Rightarrow> Inl e
           | Inr A_p \<Rightarrow> Inr (M_p, A_p)))"

text \<open>
  The parser \<^verbatim>\<open>json.load\<close> is a parameter: a text is either a document or not one.
\<close>

definition load_scale_factors ::
  "(string \<Rightarrow> 'a json option) \<Rightarrow> world \<Rightarrow> string \<Rightarrow> int \<Rightarrow> exn + ('a json \<times> 'a json)" where
  "load_scale_factors json_load w filename band_number =
     (case files w filename of
        None \<Rightarrow> Inl (FileNotFoundError filename)
      | Some text \<Rightarrow>
          (case json_load text of
             None \<Rightarrow> Inl JSONDecodeError
           | Some metadata \<Rightarrow> scale_factors_of metadata band_number))"

text \<open>
  What a document contains under a sequence of nested keys, stated apart from the
  function: every value on the way but the last is a dict that has the next key.
\<close>

fun contains_at :: "'a json \<Rightarrow> string list \<Rightarrow> 'a json option" where
  "contains_at v [] = Some v"
| "contains_at (JObj items) (k # ks) =
     (case map_of items k of None \<Rightarrow> None | Some v \<Rightarrow> contains_at v ks)"
| "contains_at v (k # ks) = None"

definition mult_path :: "int \<Rightarrow> string list" where
  "mult_path band_number =
     [''L1_METADATA_FILE'', ''RADIOMETRIC_RESCALING'', mult_key band_number]"

definition add_path :: "int \<Rightarrow> string list" where
  "add_path band_number =
     [''L1_METADATA_FILE'', ''RADIOMETRIC_RESCALING'', add_key band_number]"

text \<open>Only a dict has keys.\<close>

fun is_dict :: "'a json \<Rightarrow> bool" where
  "is_dict (JObj items) = True"
| "is_dict v = False"

section \<open>Labelled arrays\<close>

text \<open>
  An array of the array library, as far as the notebook's arithmetic touches it: the names
  of its dimensions, its shape, the coordinate labels of its labelled dimensions, and
  its elements in row-major order. The element type \<open>'a\<close> is the library's number type; the
  definitions use its operators and assume no law of them.
\<close>

record 'a data_array =
  dims :: "string list"
  shape :: "nat list"
  coords :: "(string \<times> real list) list"
  data :: "'a list"





text \<open>
  A number read from the metadata as an operand of arithmetic. A Python bool is an
  integer, 1 or 0. A string, \<^verbatim>\<open>None\<close> and a dict are no operands of an element
  (\<^verbatim>\<open>TypeError\<close>); a list would be broadcast against the array by the library, which is
  outside this model.
\<close>

fun as_number :: "'a::{zero,one} json \<Rightarrow> exn + 'a" where
  "as_number (JNum x) = Inr x"
| "as_number (JBool b) = Inr (if b then 1 else 0)"
| "as_number (JArr vs) = Inl NotModelled"
| "as_number v = Inl TypeError"

text \<open>\<^verbatim>\<open>M_p * ds\<close> and \<^verbatim>\<open>toa + A_p\<close>: the scalar is applied to every element; dimensions,
  shape and coordinates are those of the array operand. An operand that is no number
  fails at the first element it meets; an array without elements has none.\<close>

definition scalar_times :: "'a::{zero,one,times} json \<Rightarrow> 'a data_array \<Rightarrow> exn + 'a data_array" where
  "scalar_times v ds =
     (case as_number v of
        Inl e \<Rightarrow> if e = TypeError \<and> data ds = [] then Inr ds else Inl e
      | Inr m \<Rightarrow> Inr (ds\<lparr>data := map (\<lambda>x. m * x) (data ds)\<rparr>))"

definition plus_scalar :: "'a::{zero,one,plus} data_array \<Rightarrow> 'a json \<Rightarrow> exn + 'a data_array" where
  "plus_scalar ds v =
     (case as_number v of
        Inl e \<Rightarrow> if e = TypeError \<and> data ds = [] then Inr ds else Inl e
      | Inr a \<Rightarrow> Inr (ds\<lparr>data := map (\<lambda>x. x + a) (data ds)\<rparr>))"

section \<open>The linear reflectance transform\<close>

text \<open>
  \<^verbatim>\<open>
  def calculate_reflectance(ds, band_number, metafile='meta.json'):
      M_p, A_p = load_scale_factors(metafile, band_number)
      toa = M_p * ds + A_p
      return toa
  \<close>
\<close>

definition calculate_reflectance ::
  "(string \<Rightarrow> 'a json option) \<Rightarrow> world \<Rightarrow> 'a::{zero,one,plus,times} data_array \<Rightarrow> int \<Rightarrow> string
     \<Rightarrow> exn + 'a data_array" where
  "calculate_reflectance json_load w ds band_number metafile =
     (case load_scale_factors json_load w metafile band_number of
        Inl e \<Rightarrow> Inl e
      | Inr (M_p, A_p) \<Rightarrow>
          (case scalar_times M_p ds of
             Inl e \<Rightarrow> Inl e
           | Inr scaled \<Rightarrow> plus_scalar scaled A_p))"

section \<open>Arithmetic of two arrays\<close>











section \<open>Element types\<close>



text \<open>
  The arithmetic of an element type as the index needs it: difference and sum stay in
  the type, and the division converts both operands to floating-point numbers first.
\<close>

record 'a dtype =
  dtype_sub :: "'a \<Rightarrow> 'a \<Rightarrow> 'a"
  dtype_add :: "'a \<Rightarrow> 'a \<Rightarrow> 'a"
  dtype_real :: "'a \<Rightarrow> real"


text \<open>
  Unsigned 16-bit integers, the element type of the bands as they are read: difference
  and sum wrap around.
\<close>

definition uint16 :: "16 word dtype" where
  "uint16 =
     \<lparr>dtype_sub = (\<lambda>x y. x - y),
      dtype_add = (\<lambda>x y. x + y),
      dtype_real = (\<lambda>x. real (unat x))\<rparr>"

text \<open>An element type in which the difference and the sum of two zeros are zero.\<close>

definition zero_preserving :: "'a dtype \<Rightarrow> bool" where
  "zero_preserving D =
     (\<forall>x y. dtype_real D x = 0 \<and> dtype_real D y = 0 \<longrightarrow>
        dtype_real D (dtype_sub D x y) = 0 \<and> dtype_real D (dtype_add D x y) = 0)"

section \<open>The derived index\<close>


section \<open>Concrete inputs\<close>

text \<open>
  A metadata file with the coefficients of band 4, and one whose top-level section is
  \<^verbatim>\<open>null\<close>; a parser that knows these two texts; a file system that holds the first as
  \<^verbatim>\<open>meta.json\<close> and the second as \<^verbatim>\<open>empty.json\<close>.
\<close>

definition meta_text :: string where
  \<open>meta_text = ''{"L1_METADATA_FILE": {"RADIOMETRIC_RESCALING": '' @
               ''{"REFLECTANCE_MULT_BAND_4": 2.0, "REFLECTANCE_ADD_BAND_4": -62.0}}}''\<close>

definition meta_doc :: "real json" where
  "meta_doc =
     JObj [(''L1_METADATA_FILE'',
       JObj [(''RADIOMETRIC_RESCALING'',
         JObj [(''REFLECTANCE_MULT_BAND_4'', JNum 2),
               (''REFLECTANCE_ADD_BAND_4'', JNum (- 62))])])]"

definition null_text :: string where
  \<open>null_text = ''{"L1_METADATA_FILE": null}''\<close>

definition null_doc :: "real json" where
  "null_doc = JObj [(''L1_METADATA_FILE'', JNull)]"

definition parse_ex :: "string \<Rightarrow> real json option" where
  "parse_ex s =
     (if s = meta_text then Some meta_doc
      else if s = null_text then Some null_doc
      else None)"

definition world_ex :: world where
  "world_ex =
     \<lparr>files = [''meta.json'' \<mapsto> meta_text, ''empty.json'' \<mapsto> null_text],
      requests = [], stdout = []\<rparr>"

text \<open>A server that answers every request with status 404 and an error page.\<close>

definition outside_ex :: outside where
  "outside_ex =
     \<lparr>http_get = (\<lambda>u. Inr \<lparr>status_code = 404, content = ''Not Found''\<rparr>),
      creatable = (\<lambda>p. True)\<rparr>"

text \<open>A band of one row and one column holding the pixel value 218.\<close>

definition pixel_ex :: "real data_array" where
  "pixel_ex =
     \<lparr>dims = [''band'', ''y'', ''x''], shape = [1, 1, 1],
      coords = [(''band'', [1]), (''y'', [-416085]), (''x'', [512715])],
      data = [218]\<rparr>"












section \<open>Properties of the download helper\<close>

lemma download_file_existing_path:
  "path_exists w out_filename \<Longrightarrow> download_file E in_filename out_filename w = (Inr (), w)"
  by (simp add: download_file_def)

lemma download_file_returns:
  assumes "download_file E in_filename out_filename w = (Inr (), w1)"
  shows "path_exists w1 out_filename"
    and "requests w1 = requests w \<or> requests w1 = requests w @ [in_filename]"
proof -
  show "path_exists w1 out_filename"
  proof (cases "path_exists w out_filename")
    case True
    with assms show ?thesis by (simp add: download_file_def)
  next
    case False
    with assms show ?thesis
      by (auto simp: download_file_def Let_def path_exists_def write_bytes_def
               split: sum.splits if_splits)
  qed
  show "requests w1 = requests w \<or> requests w1 = requests w @ [in_filename]"
    using assms
    by (auto simp: download_file_def Let_def write_bytes_def send_request_def print_line_def
             split: sum.splits if_splits)
qed

lemma download_each_existing_path:
  "path_exists w out_filename \<Longrightarrow> download_each E us out_filename w = (Inr (), w)"
  by (induction us) (simp_all add: download_file_existing_path)

text \<open>
  C5: the helper is idempotent. When a call for a destination has returned, a second call
  with the same arguments returns at once in the state the first one left: it sends no
  request and writes nothing. So of the two calls in sequence only the first can have sent
  a request, and it sent at most one.
\<close>

theorem download_file_idempotent:
  assumes "download_file E in_filename out_filename w = (Inr (), w1)"
  shows "download_file E in_filename out_filename w1 = (Inr (), w1)
       \<and> download_each E [in_filename, in_filename] out_filename w = (Inr (), w1)
       \<and> (requests w1 = requests w \<or> requests w1 = requests w @ [in_filename])"
proof -
  have again: "download_file E in_filename out_filename w1 = (Inr (), w1)"
    using download_file_returns(1) [OF assms] by (rule download_file_existing_path)
  with assms have "download_each E [in_filename, in_filename] out_filename w = (Inr (), w1)"
    by simp
  with again download_file_returns(2) [OF assms] show ?thesis by blast
qed

theorem download_file_idempotent_witness:
  "download_file outside_ex ''http://host/B5.TIF'' ''nir.tif'' world_ex
     = (Inr (), snd (download_file outside_ex ''http://host/B5.TIF'' ''nir.tif'' world_ex))
   \<and> download_file outside_ex ''http://host/B5.TIF'' ''nir.tif''
       (snd (download_file outside_ex ''http://host/B5.TIF'' ''nir.tif'' world_ex))
     = (Inr (), snd (download_file outside_ex ''http://host/B5.TIF'' ''nir.tif'' world_ex))
   \<and> requests (snd (download_file outside_ex ''http://host/B5.TIF'' ''nir.tif'' world_ex))
     = [''http://host/B5.TIF'']"
proof -
  let ?w1 = "snd (download_file outside_ex ''http://host/B5.TIF'' ''nir.tif'' world_ex)"
  have first: "download_file outside_ex ''http://host/B5.TIF'' ''nir.tif'' world_ex = (Inr (), ?w1)"
    by (simp add: download_file_def path_exists_def world_ex_def outside_ex_def Let_def)
  have sent: "requests ?w1 = [''http://host/B5.TIF'']"
    by (simp add: download_file_def path_exists_def world_ex_def outside_ex_def Let_def
          write_bytes_def send_request_def print_line_def)
  from download_file_idempotent [OF first] first sent show ?thesis by blast
qed

text \<open>
  C9: when the destination does not exist, the request is answered by a response and the
  destination can be created, the body of the response is written to the destination
  whatever the status code is. From then on every call with that destination, for any
  sources, returns at once without a request.
\<close>

theorem download_file_ignores_status:
  assumes "files w out_filename = None"
    and "http_get E in_filename = Inr \<lparr>status_code = c, content = body\<rparr>"
    and "creatable E out_filename"
  shows "\<exists>w'. download_file E in_filename out_filename w = (Inr (), w')
            \<and> files w' = (files w)(out_filename \<mapsto> body)
            \<and> requests w' = requests w @ [in_filename]
            \<and> (\<forall>later. download_each E later out_filename w' = (Inr (), w'))"
proof -
  let ?w' = "write_bytes out_filename body
               (send_request in_filename (print_line (''Downloading '' @ in_filename) w))"
  have "download_file E in_filename out_filename w = (Inr (), ?w')"
    using assms by (simp add: download_file_def path_exists_def Let_def)
  moreover have "files ?w' = (files w)(out_filename \<mapsto> body)"
    by (simp add: write_bytes_def send_request_def print_line_def)
  moreover have "requests ?w' = requests w @ [in_filename]"
    by (simp add: write_bytes_def send_request_def print_line_def)
  moreover have "path_exists ?w' out_filename"
    by (simp add: path_exists_def write_bytes_def)
  then have "\<forall>later. download_each E later out_filename ?w' = (Inr (), ?w')"
    by (simp add: download_each_existing_path)
  ultimately show ?thesis by blast
qed

theorem download_file_ignores_status_witness:
  "files world_ex ''red.tif'' = None
   \<and> http_get outside_ex ''http://host/B4.TIF'' = Inr \<lparr>status_code = 404, content = ''Not Found''\<rparr>
   \<and> creatable outside_ex ''red.tif''
   \<and> (\<exists>w'. download_file outside_ex ''http://host/B4.TIF'' ''red.tif'' world_ex = (Inr (), w')
          \<and> files w' ''red.tif'' = Some ''Not Found''
          \<and> requests w' = [''http://host/B4.TIF'']
          \<and> download_each outside_ex [''http://host/B4.TIF'', ''http://other/B4.TIF''] ''red.tif'' w'
              = (Inr (), w'))"
proof -
  have a: "files world_ex ''red.tif'' = None" by (simp add: world_ex_def)
  have b: "http_get outside_ex ''http://host/B4.TIF''
             = Inr \<lparr>status_code = 404, content = ''Not Found''\<rparr>"
    by (simp add: outside_ex_def)
  have c: "creatable outside_ex ''red.tif''" by (simp add: outside_ex_def)
  from download_file_ignores_status [OF a b c] obtain w' where
    w': "download_file outside_ex ''http://host/B4.TIF'' ''red.tif'' world_ex = (Inr (), w')"
      "files w' = (files world_ex)(''red.tif'' \<mapsto> ''Not Found'')"
      "requests w' = requests world_ex @ [''http://host/B4.TIF'']"
      "\<forall>later. download_each outside_ex later ''red.tif'' w' = (Inr (), w')"
    by blast
  from w'(2) have "files w' ''red.tif'' = Some ''Not Found''" by simp
  moreover from w'(3) have "requests w' = [''http://host/B4.TIF'']" by (simp add: world_ex_def)
  ultimately show ?thesis using a b c w'(1) w'(4) by blast
qed

text \<open>
  C10: when the destination exists, a call returns in the state it was made in, for every
  source: no request is sent, nothing is printed and no file changes, the destination
  included.
\<close>

theorem download_file_existing_destination:
  assumes "files w out_filename = Some bytes"
  shows "download_file E in_filename out_filename w = (Inr (), w)"
  using assms by (simp add: download_file_def path_exists_def)

theorem download_file_existing_destination_witness:
  "files world_ex ''meta.json'' = Some meta_text
   \<and> download_file outside_ex ''http://host/MTL.json'' ''meta.json'' world_ex = (Inr (), world_ex)
   \<and> download_file outside_ex ''http://other/B4.TIF'' ''meta.json'' world_ex = (Inr (), world_ex)"
proof -
  have a: "files world_ex ''meta.json'' = Some meta_text" by (simp add: world_ex_def)
  from a download_file_existing_destination [OF a] show ?thesis by blast
qed

section \<open>Properties of the scaling-factor loader\<close>

lemma str_int_4: "str_int 4 = ''4''"
  by (simp add: str_int_def str_nat.simps)

lemma str_int_5: "str_int 5 = ''5''"
  by (simp add: str_int_def str_nat.simps)

lemma getitem_Inr_iff: "getitem v k = Inr x \<longleftrightarrow> contains_at v [k] = Some x"
  by (cases v) (auto split: option.splits)

lemma subscript3_Inr_iff:
  "subscript3 v k1 k2 k3 = Inr x \<longleftrightarrow> contains_at v [k1, k2, k3] = Some x"
proof (cases v)
  case (JObj items)
  show ?thesis
  proof (cases "map_of items k1")
    case None
    with JObj show ?thesis by (simp add: subscript3_def)
  next
    case (Some v1)
    have "subscript3 v k1 k2 k3 = (case getitem v1 k2 of Inl e \<Rightarrow> Inl e | Inr v2 \<Rightarrow> getitem v2 k3)"
      using JObj Some by (simp add: subscript3_def)
    moreover have "contains_at v [k1, k2, k3] = contains_at v1 [k2, k3]"
      using JObj Some by simp
    moreover have "(case getitem v1 k2 of Inl e \<Rightarrow> Inl e | Inr v2 \<Rightarrow> getitem v2 k3) = Inr x
        \<longleftrightarrow> contains_at v1 [k2, k3] = Some x"
    proof (cases v1)
      case (JObj items1)
      then show ?thesis
        by (cases "map_of items1 k2") (simp_all add: getitem_Inr_iff)
    qed simp_all
    ultimately show ?thesis by simp
  qed
qed (simp_all add: subscript3_def)

lemma scale_factors_of_Inr_iff:
  "scale_factors_of doc b = Inr (m, a) \<longleftrightarrow>
     contains_at doc (mult_path b) = Some m \<and> contains_at doc (add_path b) = Some a"
  unfolding scale_factors_of_def mult_path_def add_path_def
  by (auto simp: subscript3_Inr_iff [symmetric] split: sum.splits)

lemma scale_factors_of_fails_iff:
  "(\<exists>e. scale_factors_of doc b = Inl e) \<longleftrightarrow>
     contains_at doc (mult_path b) = None \<or> contains_at doc (add_path b) = None"
proof -
  have "(\<exists>e. scale_factors_of doc b = Inl e) \<longleftrightarrow> \<not> (\<exists>m a. scale_factors_of doc b = Inr (m, a))"
    by (cases "scale_factors_of doc b") auto
  then show ?thesis
    by (auto simp: scale_factors_of_Inr_iff)
qed

lemma getitem_Inl:
  assumes "getitem v k = Inl e"
  shows "contains_at v [k] = None \<and> e = (if is_dict v then KeyError k else TypeError)"
  using assms by (cases v) (auto split: option.splits)

lemma contains_at_Cons:
  "contains_at v (k # ks) = (case contains_at v [k] of None \<Rightarrow> None | Some u \<Rightarrow> contains_at u ks)"
  by (cases v) (auto split: option.splits)

text \<open>
  Where a chain of three subscriptions fails: at the first key of the chain that the
  value reached so far does not contain.
\<close>

lemma subscript3_Inl:
  assumes "subscript3 v k1 k2 k3 = Inl e"
  shows "\<exists>ks k rest u. ks @ k # rest = [k1, k2, k3] \<and> contains_at v ks = Some u
           \<and> contains_at u [k] = None \<and> e = (if is_dict u then KeyError k else TypeError)"
proof (cases "getitem v k1")
  case (Inl e1)
  with assms have "e1 = e" by (simp add: subscript3_def)
  with Inl have "contains_at v [k1] = None \<and> e = (if is_dict v then KeyError k1 else TypeError)"
    using getitem_Inl by blast
  moreover have "[] @ k1 # [k2, k3] = [k1, k2, k3]" and "contains_at v [] = Some v" by simp_all
  ultimately show ?thesis by blast
next
  case (Inr v1)
  then have r1: "contains_at v [k1] = Some v1" by (simp add: getitem_Inr_iff)
  show ?thesis
  proof (cases "getitem v1 k2")
    case (Inl e2)
    with assms Inr have "e2 = e" by (simp add: subscript3_def)
    with Inl have "contains_at v1 [k2] = None \<and> e = (if is_dict v1 then KeyError k2 else TypeError)"
      using getitem_Inl by blast
    moreover have "[k1] @ k2 # [k3] = [k1, k2, k3]" by simp
    ultimately show ?thesis using r1 by blast
  next
    case (Inr v2)
    then have "contains_at v1 [k2] = Some v2" by (simp add: getitem_Inr_iff)
    with r1 have r2: "contains_at v [k1, k2] = Some v2"
      by (simp add: contains_at_Cons [of v k1 "[k2]"])
    from assms \<open>getitem v k1 = Inr v1\<close> Inr have "getitem v2 k3 = Inl e"
      by (simp add: subscript3_def)
    then have "contains_at v2 [k3] = None \<and> e = (if is_dict v2 then KeyError k3 else TypeError)"
      by (rule getitem_Inl)
    moreover have "[k1, k2] @ k3 # [] = [k1, k2, k3]" by simp
    ultimately show ?thesis using r2 by blast
  qed
qed

lemma scale_factors_of_error:
  assumes "scale_factors_of doc b = Inl e"
  shows "\<exists>ks k rest u.
           ks @ k # rest = (if contains_at doc (mult_path b) = None then mult_path b else add_path b)
           \<and> contains_at doc ks = Some u \<and> contains_at u [k] = None
           \<and> e = (if is_dict u then KeyError k else TypeError)"
proof (cases "subscript3 doc ''L1_METADATA_FILE'' ''RADIOMETRIC_RESCALING'' (mult_key b)")
  case (Inl e1)
  with assms have "e1 = e" by (simp add: scale_factors_of_def)
  have "contains_at doc (mult_path b) = None"
  proof (cases "contains_at doc (mult_path b)")
    case (Some x)
    then have "subscript3 doc ''L1_METADATA_FILE'' ''RADIOMETRIC_RESCALING'' (mult_key b) = Inr x"
      by (simp add: subscript3_Inr_iff mult_path_def)
    with Inl show ?thesis by simp
  qed simp
  with subscript3_Inl [of doc _ _ "mult_key b" e] Inl \<open>e1 = e\<close> show ?thesis
    by (simp add: mult_path_def)
next
  case (Inr M_p)
  then have "contains_at doc (mult_path b) = Some M_p"
    by (simp add: subscript3_Inr_iff mult_path_def)
  moreover from assms Inr
  have "subscript3 doc ''L1_METADATA_FILE'' ''RADIOMETRIC_RESCALING'' (add_key b) = Inl e"
    by (simp add: scale_factors_of_def split: sum.splits)
  ultimately show ?thesis
    using subscript3_Inl [of doc _ _ "add_key b" e] by (simp add: add_path_def)
qed

lemma meta_doc_band_4: "scale_factors_of meta_doc 4 = Inr (JNum 2, JNum (- 62))"
  by (simp add: scale_factors_of_def subscript3_def mult_key_def add_key_def str_int_4
        meta_doc_def)

lemma load_meta_json_band_4:
  "load_scale_factors parse_ex world_ex ''meta.json'' 4 = Inr (JNum 2, JNum (- 62))"
  by (simp add: load_scale_factors_def world_ex_def parse_ex_def meta_doc_band_4)

text \<open>
  C3: when the file holds a document that contains a value under the nested keys of the
  multiplier of the band and a value under those of its offset, the function returns
  these two values, the multiplier first.
\<close>

theorem load_scale_factors_returns_pair:
  assumes "files w filename = Some doc_text"
    and "json_load doc_text = Some metadata"
    and "contains_at metadata (mult_path band_number) = Some m"
    and "contains_at metadata (add_path band_number) = Some a"
  shows "load_scale_factors json_load w filename band_number = Inr (m, a)"
  using assms by (simp add: load_scale_factors_def scale_factors_of_Inr_iff)

theorem load_scale_factors_returns_pair_witness:
  "files world_ex ''meta.json'' = Some meta_text
   \<and> parse_ex meta_text = Some meta_doc
   \<and> contains_at meta_doc (mult_path 4) = Some (JNum 2)
   \<and> contains_at meta_doc (add_path 4) = Some (JNum (- 62))
   \<and> load_scale_factors parse_ex world_ex ''meta.json'' 4 = Inr (JNum 2, JNum (- 62))"
proof -
  have a: "files world_ex ''meta.json'' = Some meta_text" by (simp add: world_ex_def)
  have b: "parse_ex meta_text = Some meta_doc" by (simp add: parse_ex_def)
  have c: "contains_at meta_doc (mult_path 4) = Some (JNum 2)"
    by (simp add: meta_doc_def mult_path_def mult_key_def str_int_4)
  have d: "contains_at meta_doc (add_path 4) = Some (JNum (- 62))"
    by (simp add: meta_doc_def add_path_def add_key_def str_int_4)
  from a b c d
    load_scale_factors_returns_pair [where json_load = parse_ex and w = world_ex
      and filename = "''meta.json''" and doc_text = meta_text and metadata = meta_doc
      and band_number = 4 and m = "JNum 2" and a = "JNum (- 62)"]
  show ?thesis by blast
qed

text \<open>
  C4, as the claim states it, fails: in the document \<^verbatim>\<open>{"L1_METADATA_FILE": null}\<close> the
  enclosing structure of the rescaling keys is absent, and the function fails with a
  \<^verbatim>\<open>TypeError\<close> (\<^verbatim>\<open>None\<close> is not subscriptable), which is no lookup error.
\<close>

theorem load_scale_factors_lookup_error_counterexample:
  "files world_ex ''empty.json'' = Some null_text
   \<and> parse_ex null_text = Some null_doc
   \<and> contains_at null_doc (mult_path 4) = None
   \<and> load_scale_factors parse_ex world_ex ''empty.json'' 4 = Inl TypeError
   \<and> \<not> is_lookup_error TypeError"
  by (simp add: load_scale_factors_def world_ex_def parse_ex_def null_text_def meta_text_def
        null_doc_def scale_factors_of_def subscript3_def mult_path_def)

text \<open>
  C4, amended: for a file that holds a document, the function fails exactly when the
  document does not contain a value under the nested keys of the multiplier or of the
  offset of the band. The failure arises in the first of the two chains that cannot be
  followed, at its first key \<open>k\<close> that the value \<open>u\<close> reached so far does not contain: it
  is the \<^verbatim>\<open>KeyError\<close> of this missing key, a lookup error, when \<open>u\<close> is a dict, and a
  \<^verbatim>\<open>TypeError\<close> when \<open>u\<close> is not a dict. Nothing else is tried.
\<close>

theorem load_scale_factors_failure:
  assumes "files w filename = Some doc_text"
    and "json_load doc_text = Some metadata"
  shows "((\<exists>e. load_scale_factors json_load w filename band_number = Inl e) \<longleftrightarrow>
            contains_at metadata (mult_path band_number) = None
            \<or> contains_at metadata (add_path band_number) = None)
       \<and> (\<forall>e. load_scale_factors json_load w filename band_number = Inl e \<longrightarrow>
            (\<exists>ks k rest u.
               ks @ k # rest = (if contains_at metadata (mult_path band_number) = None
                                then mult_path band_number else add_path band_number)
               \<and> contains_at metadata ks = Some u
               \<and> contains_at u [k] = None
               \<and> e = (if is_dict u then KeyError k else TypeError)
               \<and> (is_lookup_error e \<longleftrightarrow> is_dict u)))"
proof -
  have eq: "load_scale_factors json_load w filename band_number
              = scale_factors_of metadata band_number"
    using assms by (simp add: load_scale_factors_def)
  have "\<forall>e. scale_factors_of metadata band_number = Inl e \<longrightarrow>
            (\<exists>ks k rest u.
               ks @ k # rest = (if contains_at metadata (mult_path band_number) = None
                                then mult_path band_number else add_path band_number)
               \<and> contains_at metadata ks = Some u
               \<and> contains_at u [k] = None
               \<and> e = (if is_dict u then KeyError k else TypeError)
               \<and> (is_lookup_error e \<longleftrightarrow> is_dict u))"
  proof (intro allI impI)
    fix e assume "scale_factors_of metadata band_number = Inl e"
    from scale_factors_of_error [OF this] obtain ks k rest u where
      h: "ks @ k # rest = (if contains_at metadata (mult_path band_number) = None
                           then mult_path band_number else add_path band_number)"
         "contains_at metadata ks = Some u" "contains_at u [k] = None"
         "e = (if is_dict u then KeyError k else TypeError)"
      by blast
    from h(4) have "is_lookup_error e \<longleftrightarrow> is_dict u" by simp
    with h show "\<exists>ks k rest u.
               ks @ k # rest = (if contains_at metadata (mult_path band_number) = None
                                then mult_path band_number else add_path band_number)
               \<and> contains_at metadata ks = Some u
               \<and> contains_at u [k] = None
               \<and> e = (if is_dict u then KeyError k else TypeError)
               \<and> (is_lookup_error e \<longleftrightarrow> is_dict u)"
      by blast
  qed
  with scale_factors_of_fails_iff [of metadata band_number] show ?thesis
    unfolding eq by blast
qed

text \<open>
  The witness: \<^verbatim>\<open>meta.json\<close> has the keys of band 4 only, so for band 5 the two dicts on
  the way are found and the innermost one lacks the key of the multiplier.
\<close>

theorem load_scale_factors_failure_witness:
  "files world_ex ''meta.json'' = Some meta_text
   \<and> parse_ex meta_text = Some meta_doc
   \<and> contains_at meta_doc (mult_path 5) = None
   \<and> (\<exists>u. contains_at meta_doc [''L1_METADATA_FILE'', ''RADIOMETRIC_RESCALING''] = Some u
          \<and> is_dict u \<and> contains_at u [''REFLECTANCE_MULT_BAND_5''] = None)
   \<and> load_scale_factors parse_ex world_ex ''meta.json'' 5
        = Inl (KeyError ''REFLECTANCE_MULT_BAND_5'')
   \<and> is_lookup_error (KeyError ''REFLECTANCE_MULT_BAND_5'')"
proof -
  have a: "files world_ex ''meta.json'' = Some meta_text" by (simp add: world_ex_def)
  have b: "parse_ex meta_text = Some meta_doc" by (simp add: parse_ex_def)
  have c: "contains_at meta_doc (mult_path 5) = None"
    by (simp add: meta_doc_def mult_path_def mult_key_def str_int_5)
  have d: "\<exists>u. contains_at meta_doc [''L1_METADATA_FILE'', ''RADIOMETRIC_RESCALING''] = Some u
          \<and> is_dict u \<and> contains_at u [''REFLECTANCE_MULT_BAND_5''] = None"
    by (simp add: meta_doc_def)
  from load_scale_factors_failure [where json_load = parse_ex and w = world_ex
      and filename = "''meta.json''" and doc_text = meta_text and metadata = meta_doc
      and band_number = 5] a b c
  have "\<exists>e. load_scale_factors parse_ex world_ex ''meta.json'' 5 = Inl e" by blast
  then obtain e where e: "load_scale_factors parse_ex world_ex ''meta.json'' 5 = Inl e" ..
  have "load_scale_factors parse_ex world_ex ''meta.json'' 5
          = Inl (KeyError ''REFLECTANCE_MULT_BAND_5'')"
    by (simp add: load_scale_factors_def world_ex_def parse_ex_def meta_doc_def
          scale_factors_of_def subscript3_def mult_key_def str_int_5)
  with a b c d e show ?thesis by auto
qed

section \<open>Properties of the linear reflectance transform\<close>

lemma calculate_reflectance_value:
  assumes "load_scale_factors json_load w metafile band_number = Inr (M_p, A_p)"
    and "as_number M_p = Inr m" and "as_number A_p = Inr a"
  shows "calculate_reflectance json_load w ds band_number metafile
           = Inr (ds\<lparr>data := map (\<lambda>x. m * x + a) (data ds)\<rparr>)"
  using assms by (simp add: calculate_reflectance_def scalar_times_def plus_scalar_def)

lemma calculate_reflectance_pixel:
  "calculate_reflectance parse_ex world_ex pixel_ex 4 ''meta.json''
     = Inr (pixel_ex\<lparr>data := [374]\<rparr>)"
  using calculate_reflectance_value [OF load_meta_json_band_4, of 2 "- 62" pixel_ex]
  by (simp add: pixel_ex_def)

text \<open>
  C1: when the metadata of the band holds the multiplier \<open>m\<close> and the offset \<open>a\<close>, the
  transform returns an array whose element at every position is \<open>m\<close> times the element
  of the input there, plus \<open>a\<close>. With multiplier 2.0, offset -62.0 and the pixel value 218
  the transformed value is 374.0: that is the witness.
\<close>

theorem calculate_reflectance_elementwise:
  assumes "load_scale_factors json_load w metafile band_number = Inr (JNum m, JNum a)"
  shows "\<exists>toa. calculate_reflectance json_load w ds band_number metafile = Inr toa
            \<and> length (data toa) = length (data ds)
            \<and> (\<forall>i<length (data ds). data toa ! i = m * data ds ! i + a)"
proof -
  have "calculate_reflectance json_load w ds band_number metafile
          = Inr (ds\<lparr>data := map (\<lambda>x. m * x + a) (data ds)\<rparr>)"
    using assms by (rule calculate_reflectance_value) simp_all
  then show ?thesis by simp
qed

theorem calculate_reflectance_elementwise_witness:
  "load_scale_factors parse_ex world_ex ''meta.json'' 4 = Inr (JNum 2, JNum (- 62))
   \<and> data pixel_ex = [218]
   \<and> (\<exists>toa. calculate_reflectance parse_ex world_ex pixel_ex 4 ''meta.json'' = Inr toa
          \<and> data toa = [374])"
proof -
  have px: "data pixel_ex = [218]" by (simp add: pixel_ex_def)
  from calculate_reflectance_elementwise [OF load_meta_json_band_4, of pixel_ex]
  obtain toa where
    toa: "calculate_reflectance parse_ex world_ex pixel_ex 4 ''meta.json'' = Inr toa"
      "length (data toa) = length (data pixel_ex)"
      "\<forall>i<length (data pixel_ex). data toa ! i = 2 * data pixel_ex ! i + - 62"
    by blast
  from toa(3) px have "data toa ! 0 = 374" by simp
  moreover from toa(2) px have "length (data toa) = 1" by simp
  ultimately have "data toa = [374]" by (cases "data toa") auto
  with toa(1) px load_meta_json_band_4 show ?thesis by blast
qed

text \<open>
  C7: an array returned by the transform has the dimensions, the shape and the coordinate
  labels of the input array and as many elements; it is the input array with other
  element values.
\<close>

theorem calculate_reflectance_frame:
  assumes "calculate_reflectance json_load w ds band_number metafile = Inr toa"
  shows "dims toa = dims ds \<and> shape toa = shape ds \<and> coords toa = coords ds
       \<and> length (data toa) = length (data ds)
       \<and> toa = ds\<lparr>data := data toa\<rparr>"
  using assms
  by (auto simp: calculate_reflectance_def scalar_times_def plus_scalar_def
           split: sum.splits if_splits)

theorem calculate_reflectance_frame_witness:
  "calculate_reflectance parse_ex world_ex pixel_ex 4 ''meta.json'' = Inr (pixel_ex\<lparr>data := [374]\<rparr>)
   \<and> shape (pixel_ex\<lparr>data := [374]\<rparr>) = [1, 1, 1]
   \<and> coords (pixel_ex\<lparr>data := [374]\<rparr>) = [(''band'', [1]), (''y'', [-416085]), (''x'', [512715])]
   \<and> shape pixel_ex = [1, 1, 1]
   \<and> coords pixel_ex = [(''band'', [1]), (''y'', [-416085]), (''x'', [512715])]"
proof -
  from calculate_reflectance_frame [OF calculate_reflectance_pixel]
  have "shape (pixel_ex\<lparr>data := [374]\<rparr>) = shape pixel_ex"
    and "coords (pixel_ex\<lparr>data := [374]\<rparr>) = coords pixel_ex"
    by blast+
  moreover have "shape pixel_ex = [1, 1, 1]"
    and "coords pixel_ex = [(''band'', [1]), (''y'', [-416085]), (''x'', [512715])]"
    by (simp_all add: pixel_ex_def)
  ultimately show ?thesis using calculate_reflectance_pixel by simp
qed

section \<open>Properties of the derived index\<close>
















lemma uint16_zero_preserving: "zero_preserving uint16"
proof -
  have z: "real (unat x) = 0 \<longleftrightarrow> x = 0" for x :: "16 word"
    by (simp add: unsigned_eq_0_iff)
  show ?thesis
    unfolding zero_preserving_def uint16_def by (simp only: dtype.simps z) simp
qed











end
